theory Spec2Isabelle
  imports Main "HOL-Library.Word"
begin

section \<open>The Mach task-self wrapper\<close>

text \<open>
  The repository is one C function and its prototype:
  \<^verbatim>\<open>
  // MachTaskSelf.h
  mach_port_t get_current_task_port(void);

  // MachTaskSelf.c
  mach_port_t get_current_task_port(void) {
      return mach_task_self_;
  }
  \<close>
  \<open>mach_task_self_\<close> is a global variable of the process, declared by the system header
  \<open><mach/mach.h>\<close> and set by the system library when the process starts.
\<close>

subsection \<open>Process state\<close>

text \<open>
  \<open>mach_port_t\<close> is declared by \<open><mach/mach.h>\<close>, which is not part of the repository:
  an unsigned machine integer whose width \<open>'w\<close> is left as a parameter (32 bits on
  Darwin). Everything else the process owns (its other globals, its heap, its stacks)
  is the field \<open>memory\<close>, of any type \<open>'m\<close>. The field \<open>mach_task_self\<close> is the C
  variable \<^verbatim>\<open>mach_task_self_\<close> (an identifier cannot end in an underscore here).
\<close>

type_synonym 'w mach_port_t = "'w word"

record (overloaded) ('w, 'm) process =
  mach_task_self :: "'w mach_port_t"
  memory :: 'm

text \<open>
  The two distinguished port names of \<open><mach/port.h>\<close>, and its validity test:
  \<^verbatim>\<open>
  #define MACH_PORT_NULL   0
  #define MACH_PORT_DEAD   ((mach_port_name_t) ~0)
  #define MACH_PORT_VALID(name) (((name) != MACH_PORT_NULL) && ((name) != MACH_PORT_DEAD))
  \<close>
  They belong to the operating system's headers, not to the repository; the wrapper
  does not use them.
\<close>

definition MACH_PORT_NULL :: "'w::len mach_port_t" where
  "MACH_PORT_NULL = 0"

definition MACH_PORT_DEAD :: "'w::len mach_port_t" where
  "MACH_PORT_DEAD = - 1"


subsection \<open>Executing C code on a process\<close>

text \<open>
  What a piece of C code can do to the process state, one entry for each thing done,
  in the order it is done.
\<close>

datatype access =
    Read_mach_task_self
  | Write_mach_task_self
  | Read_memory
  | Write_memory
  | Allocate

text \<open>A call that does not return to its caller.\<close>

datatype error = Trap

text \<open>
  A piece of C code run on a state either fails, or yields a value, the state it leaves
  and the accesses it made.
\<close>

type_synonym ('s, 'a) exec = "'s \<Rightarrow> error + ('a \<times> 's \<times> access list)"

definition bind_c :: "('s, 'a) exec \<Rightarrow> ('a \<Rightarrow> ('s, 'b) exec) \<Rightarrow> ('s, 'b) exec" where
  "bind_c m k s =
     (case m s of
        Inl e \<Rightarrow> Inl e
      | Inr (a, s', tr) \<Rightarrow>
          (case k a s' of
             Inl e \<Rightarrow> Inl e
           | Inr (b, s'', tr') \<Rightarrow> Inr (b, s'', tr @ tr')))"

text \<open>\<^verbatim>\<open>return v;\<close> hands the value to the caller and touches nothing.\<close>

definition return_c :: "'a \<Rightarrow> ('s, 'a) exec" where
  "return_c v s = Inr (v, s, [])"

text \<open>The expression \<^verbatim>\<open>mach_task_self_\<close>: one load of the global variable.\<close>

definition load_mach_task_self :: "(('w, 'm) process, 'w mach_port_t) exec" where
  "load_mach_task_self s = Inr (mach_task_self s, s, [Read_mach_task_self])"

subsection \<open>The wrapper\<close>

text \<open>
  \<^verbatim>\<open>
  mach_port_t get_current_task_port(void) {
      return mach_task_self_;
  }
  \<close>
\<close>

definition get_current_task_port :: "(('w, 'm) process, 'w mach_port_t) exec" where
  "get_current_task_port = bind_c load_mach_task_self return_c"

text \<open>What the caller receives: the returned value, or the failure.\<close>

definition returned :: "error + ('a \<times> 's \<times> access list) \<Rightarrow> error + 'a" where
  "returned r = (case r of Inl e \<Rightarrow> Inl e | Inr (v, s', tr) \<Rightarrow> Inr v)"

text \<open>
  Reading the variable itself, as a C caller writes \<^verbatim>\<open>mach_task_self_\<close> in place of a
  call of the wrapper.
\<close>

definition direct_mach_task_self :: "('w, 'm) process \<Rightarrow> 'w mach_port_t" where
  "direct_mach_task_self s = mach_task_self s"

subsection \<open>The header\<close>

text \<open>
  \<open>MachTaskSelf.h\<close> declares one prototype:
  \<^verbatim>\<open>mach_port_t get_current_task_port(void);\<close>
  A prototype has a name, the types of its parameters (none for \<^verbatim>\<open>(void)\<close>) and the
  type of its result, which for a C function is \<^verbatim>\<open>void\<close> or a type that has values.
\<close>

datatype c_type = Void | Mach_port_t

record c_prototype =
  c_name :: string
  c_params :: "c_type list"
  c_result :: c_type

definition MachTaskSelf_h :: "c_prototype list" where
  "MachTaskSelf_h =
     [\<lparr>c_name = ''get_current_task_port'', c_params = [], c_result = Mach_port_t\<rparr>]"

text \<open>
  The number of bits a value of a type occupies, on a platform whose port names have
  \<open>n\<close> bits. \<^verbatim>\<open>void\<close> has no value.
\<close>

fun bits_of :: "nat \<Rightarrow> c_type \<Rightarrow> nat" where
  "bits_of n Void = 0"
| "bits_of n Mach_port_t = n"

subsection \<open>A process that calls the wrapper during its life\<close>

text \<open>
  From its start to its exit a process calls the wrapper some number of times and does
  other work in between. The run collects the values the calls returned, in order, and
  stops at the first call that fails.
\<close>

datatype 's activity = Call_get_current_task_port | Other_work "'s \<Rightarrow> 's"

fun is_call :: "'s activity \<Rightarrow> bool" where
  "is_call Call_get_current_task_port = True"
| "is_call (Other_work f) = False"

fun run_process ::
  "('w, 'm) process activity list \<Rightarrow> ('w, 'm) process
     \<Rightarrow> error + ('w mach_port_t list \<times> ('w, 'm) process)" where
  "run_process [] s = Inr ([], s)"
| "run_process (Call_get_current_task_port # acts) s =
     (case get_current_task_port s of
        Inl e \<Rightarrow> Inl e
      | Inr (v, s', tr) \<Rightarrow>
          (case run_process acts s' of
             Inl e \<Rightarrow> Inl e
           | Inr (vs, s'') \<Rightarrow> Inr (v # vs, s'')))"
| "run_process (Other_work f # acts) s = run_process acts (f s)"

text \<open>
  The process keeps its task identity: no work it does assigns to \<^verbatim>\<open>mach_task_self_\<close>.
\<close>

fun keeps_task_self :: "('w, 'm) process activity \<Rightarrow> bool" where
  "keeps_task_self Call_get_current_task_port = True"
| "keeps_task_self (Other_work f) = (\<forall>s. mach_task_self (f s) = mach_task_self s)"

subsection \<open>Threads that call the wrapper concurrently\<close>

text \<open>
  The threads of a process share its state. A call of the wrapper makes one access, so
  an execution of calls made concurrently by any number of threads is an interleaving of
  their calls: a schedule lists, in the order the accesses reach the state, the thread
  that makes each call. Every interleaving of the calls of every number of threads is
  such a list. The execution records each call with its thread, the value the call
  returned and the accesses it made.
\<close>

type_synonym thread = nat

fun run_threads ::
  "thread list \<Rightarrow> ('w, 'm) process
     \<Rightarrow> error + ((thread \<times> 'w mach_port_t \<times> access list) list \<times> ('w, 'm) process)" where
  "run_threads [] s = Inr ([], s)"
| "run_threads (t # sched) s =
     (case get_current_task_port s of
        Inl e \<Rightarrow> Inl e
      | Inr (v, s', tr) \<Rightarrow>
          (case run_threads sched s' of
             Inl e \<Rightarrow> Inl e
           | Inr (evs, s'') \<Rightarrow> Inr ((t, v, tr) # evs, s'')))"

text \<open>
  A data race: two accesses by different threads to the same part of the state, at
  least one of them a write.
\<close>

datatype location = Task_self_variable | Process_memory

fun location_of :: "access \<Rightarrow> location" where
  "location_of Read_mach_task_self = Task_self_variable"
| "location_of Write_mach_task_self = Task_self_variable"
| "location_of Read_memory = Process_memory"
| "location_of Write_memory = Process_memory"
| "location_of Allocate = Process_memory"

fun is_write :: "access \<Rightarrow> bool" where
  "is_write Read_mach_task_self = False"
| "is_write Write_mach_task_self = True"
| "is_write Read_memory = False"
| "is_write Write_memory = True"
| "is_write Allocate = True"

definition conflict :: "access \<Rightarrow> access \<Rightarrow> bool" where
  "conflict a b = (location_of a = location_of b \<and> (is_write a \<or> is_write b))"

definition call_conflict ::
  "thread \<times> 'v \<times> access list \<Rightarrow> thread \<times> 'v \<times> access list \<Rightarrow> bool" where
  "call_conflict e e' =
     (fst e \<noteq> fst e' \<and> list_ex (\<lambda>a. list_ex (conflict a) (snd (snd e'))) (snd (snd e)))"

definition races :: "(thread \<times> 'v \<times> access list) list \<Rightarrow> bool" where
  "races evs = list_ex (\<lambda>e. list_ex (call_conflict e) evs) evs"

section \<open>Properties\<close>

subsection \<open>What one call does\<close>

lemma get_current_task_port_eq:
  "get_current_task_port s = Inr (mach_task_self s, s, [Read_mach_task_self])"
  by (simp add: get_current_task_port_def bind_c_def load_mach_task_self_def return_c_def)

subsection \<open>Calls over the life of a process\<close>

text \<open>
  Claim C1. Within one process, every call of the wrapper returns the same task
  handle as every other call: whatever the process does between its start and its exit,
  as long as none of that work assigns to \<^verbatim>\<open>mach_task_self_\<close>, each call returns
  the value the variable had at the start, and the variable still holds it at the end.
  In particular a call at startup and a call just before exit return the same value.
\<close>

theorem get_current_task_port_stable:
  assumes "list_all keeps_task_self acts"
  shows "\<exists>s'. run_process acts s =
           Inr (replicate (length (filter is_call acts)) (mach_task_self s), s')
         \<and> mach_task_self s' = mach_task_self s"
  using assms
proof (induction acts arbitrary: s)
  case Nil
  show ?case by simp
next
  case (Cons a acts)
  from Cons.prems have rest: "list_all keeps_task_self acts"
    by simp
  show ?case
  proof (cases a)
    case Call_get_current_task_port
    with Cons.IH [OF rest, of s] show ?thesis
      by (auto simp: get_current_task_port_eq)
  next
    case (Other_work f)
    with Cons.prems have "mach_task_self (f s) = mach_task_self s"
      by simp
    with Cons.IH [OF rest, of "f s"] Other_work show ?thesis
      by auto
  qed
qed

text \<open>
  A process that calls at startup, works on its memory, and calls again before exit.
\<close>

theorem get_current_task_port_stable_witness:
  "list_all keeps_task_self
     [Call_get_current_task_port,
      Other_work (\<lambda>s::(32, nat) process. s\<lparr>memory := Suc (memory s)\<rparr>),
      Call_get_current_task_port]
   \<and> (\<exists>s'. run_process
          [Call_get_current_task_port,
           Other_work (\<lambda>s. s\<lparr>memory := Suc (memory s)\<rparr>),
           Call_get_current_task_port]
          \<lparr>mach_task_self = (259 :: 32 word), memory = (0::nat)\<rparr>
        = Inr ([259, 259], s'))"
proof -
  let ?acts = "[Call_get_current_task_port,
                Other_work (\<lambda>s::(32, nat) process. s\<lparr>memory := Suc (memory s)\<rparr>),
                Call_get_current_task_port]"
  have h: "list_all keeps_task_self ?acts"
    by simp
  from get_current_task_port_stable [OF h, of "\<lparr>mach_task_self = 259, memory = 0\<rparr>"] h
  show ?thesis
    by auto
qed

subsection \<open>The value returned and the accesses made\<close>

text \<open>
  Claim C2. In every process state the call makes exactly one access, a read of
  \<^verbatim>\<open>mach_task_self_\<close>, and returns the value read, unchanged.
\<close>

theorem get_current_task_port_single_read:
  "\<exists>s'. get_current_task_port s = Inr (mach_task_self s, s', [Read_mach_task_self])"
  by (simp add: get_current_task_port_eq)

text \<open>
  Claim C3. In every process state the call leaves the state as it found it: the state
  after the call is the state before it, and the call neither allocates nor writes.
\<close>

theorem get_current_task_port_no_side_effect:
  "\<exists>v tr. get_current_task_port s = Inr (v, s, tr)
     \<and> Write_mach_task_self \<notin> set tr \<and> Write_memory \<notin> set tr \<and> Allocate \<notin> set tr"
  by (simp add: get_current_task_port_eq)

text \<open>
  Claim C4. In every process state the call succeeds and returns a value; it never
  fails.
\<close>

theorem get_current_task_port_never_fails:
  "(\<exists>v s' tr. get_current_task_port s = Inr (v, s', tr))
   \<and> (\<forall>e. get_current_task_port s \<noteq> Inl e)"
  by (simp add: get_current_task_port_eq)

text \<open>
  Claim C10. The wrapper validates nothing: whatever value \<open>v\<close> the variable holds,
  the call returns exactly \<open>v\<close>, also when \<open>v\<close> is \<^verbatim>\<open>MACH_PORT_NULL\<close> (0) or
  \<^verbatim>\<open>MACH_PORT_DEAD\<close> (all bits set).
\<close>

theorem get_current_task_port_no_validation:
  "returned (get_current_task_port (s\<lparr>mach_task_self := v\<rparr>)) = Inr v
   \<and> returned (get_current_task_port (s\<lparr>mach_task_self := MACH_PORT_NULL\<rparr>)) = Inr 0
   \<and> returned (get_current_task_port (s\<lparr>mach_task_self := MACH_PORT_DEAD\<rparr>)) = Inr (- 1)"
  by (simp add: get_current_task_port_eq returned_def MACH_PORT_NULL_def MACH_PORT_DEAD_def)

subsection \<open>Validity of the returned handle\<close>



subsection \<open>The wrapper against the variable\<close>

text \<open>
  Claim C7. In every process state the wrapper returns the value that reading
  \<^verbatim>\<open>mach_task_self_\<close> directly gives, and any facility given the returned handle
  after the call computes what it computes from the directly read value without the
  call.
\<close>

theorem get_current_task_port_refines_direct:
  "\<exists>v s' tr. get_current_task_port s = Inr (v, s', tr)
     \<and> v = direct_mach_task_self s
     \<and> facility v s' = facility (direct_mach_task_self s) s"
  by (simp add: get_current_task_port_eq direct_mach_task_self_def)

text \<open>
  Claim C8. Two runs whose \<^verbatim>\<open>mach_task_self_\<close> values are equal get equal results
  from the call, however else their states differ (even in the type of their memory):
  the result depends on that one value only.
\<close>

theorem get_current_task_port_deterministic:
  fixes s1 :: "('w::len, 'm1) process" and s2 :: "('w, 'm2) process"
  assumes "mach_task_self s1 = mach_task_self s2"
  shows "returned (get_current_task_port s1) = returned (get_current_task_port s2)"
  using assms
  by (simp add: get_current_task_port_eq returned_def)

text \<open>
  Two states with the same handle, one with a list for memory and one with a flag.
\<close>

theorem get_current_task_port_deterministic_witness:
  "mach_task_self \<lparr>mach_task_self = (259 :: 32 word), memory = [1, 2, 3 :: nat]\<rparr>
     = mach_task_self \<lparr>mach_task_self = (259 :: 32 word), memory = True\<rparr>
   \<and> returned (get_current_task_port
         \<lparr>mach_task_self = (259 :: 32 word), memory = [1, 2, 3 :: nat]\<rparr>)
     = returned (get_current_task_port \<lparr>mach_task_self = (259 :: 32 word), memory = True\<rparr>)
   \<and> returned (get_current_task_port \<lparr>mach_task_self = (259 :: 32 word), memory = True\<rparr>)
     = Inr 259"
proof -
  have h: "mach_task_self \<lparr>mach_task_self = (259 :: 32 word), memory = [1, 2, 3 :: nat]\<rparr>
     = mach_task_self \<lparr>mach_task_self = (259 :: 32 word), memory = True\<rparr>"
    by simp
  from get_current_task_port_deterministic [OF h] h show ?thesis
    by (simp add: get_current_task_port_def bind_c_def load_mach_task_self_def return_c_def
        returned_def)
qed

subsection \<open>The public surface\<close>

text \<open>
  Claim C5, as amended. The header declares exactly one function; it is named
  \<^verbatim>\<open>get_current_task_port\<close>, takes no parameter, and returns one handle of the
  platform's native handle width: the declared result type has that width, and the value
  a call returns has the width of the declared result type, which is the width of the
  handle the process holds.
\<close>

theorem MachTaskSelf_h_surface:
  fixes s :: "('w::len, 'm) process"
  shows "map c_name MachTaskSelf_h = [''get_current_task_port'']
   \<and> map c_params MachTaskSelf_h = [[]]
   \<and> map c_result MachTaskSelf_h = [Mach_port_t]
   \<and> map (bits_of LENGTH('w) \<circ> c_result) MachTaskSelf_h = [LENGTH('w)]
   \<and> (\<exists>v s' tr. get_current_task_port s = Inr (v, s', tr)
         \<and> [size v] = map (bits_of LENGTH('w) \<circ> c_result) MachTaskSelf_h
         \<and> size v = size (mach_task_self s))"
  by (simp add: MachTaskSelf_h_def get_current_task_port_eq word_size)

text \<open>
  Claim C5 as stated names the function \<^verbatim>\<open>get_current_task_handle\<close>; the header
  declares no function of that name.
\<close>

theorem MachTaskSelf_h_handle_counterexample:
  "''get_current_task_handle'' \<notin> set (map c_name MachTaskSelf_h)"
  by (simp add: MachTaskSelf_h_def)

subsection \<open>Concurrent calls\<close>

lemma run_threads_eq:
  "run_threads sched s =
     Inr (map (\<lambda>t. (t, mach_task_self s, [Read_mach_task_self])) sched, s)"
  by (induction sched) (simp_all add: get_current_task_port_eq)

lemma races_reads_only:
  "\<not> races (map (\<lambda>t. (t, v, [Read_mach_task_self])) sched)"
  by (simp add: races_def call_conflict_def conflict_def list_ex_iff)

text \<open>A call that wrote the variable would race with a call of another thread.\<close>

lemma races_with_a_write:
  "races [(0, v, [Read_mach_task_self]), (1, v, [Write_mach_task_self])]"
  by (simp add: races_def call_conflict_def conflict_def)

text \<open>
  Claim C9. Any number of threads may call the wrapper concurrently, with no
  coordination. Under every schedule of their calls: every call completes, in the order
  scheduled, and the state is left as it was; all calls return the same value, the one
  \<^verbatim>\<open>mach_task_self_\<close> holds; no two calls race; and no call waits for another, since what
  the calls of a thread \<open>t\<close> do is what they do when \<open>t\<close> runs alone.
\<close>

theorem get_current_task_port_concurrent:
  "\<exists>evs. run_threads sched s = Inr (evs, s)
     \<and> map fst evs = sched
     \<and> map (fst \<circ> snd) evs = replicate (length sched) (mach_task_self s)
     \<and> \<not> races evs
     \<and> run_threads (filter (\<lambda>t'. t' = t) sched) s = Inr (filter (\<lambda>e. fst e = t) evs, s)"
proof -
  let ?evs = "map (\<lambda>t. (t, mach_task_self s, [Read_mach_task_self])) sched"
  have run: "run_threads sched s = Inr (?evs, s)"
    by (rule run_threads_eq)
  have order: "map fst ?evs = sched"
    by (simp add: comp_def)
  have same: "map (fst \<circ> snd) ?evs = replicate (length sched) (mach_task_self s)"
    by (simp add: comp_def map_replicate_const)
  have free: "\<not> races ?evs"
    by (rule races_reads_only)
  have alone: "run_threads (filter (\<lambda>t'. t' = t) sched) s
      = Inr (filter (\<lambda>e. fst e = t) ?evs, s)"
    by (simp add: run_threads_eq filter_map comp_def)
  from run order same free alone show ?thesis
    by blast
qed

text \<open>
  Three threads; thread 0 calls twice, with the calls of threads 1 and 2 in between
  and after.
\<close>

theorem get_current_task_port_concurrent_witness:
  "run_threads [0, 1, 0, 2] \<lparr>mach_task_self = (259 :: 32 word), memory = ()\<rparr>
     = Inr ([(0, 259, [Read_mach_task_self]), (1, 259, [Read_mach_task_self]),
             (0, 259, [Read_mach_task_self]), (2, 259, [Read_mach_task_self])],
            \<lparr>mach_task_self = 259, memory = ()\<rparr>)
   \<and> \<not> races [(0 :: nat, 259 :: 32 word, [Read_mach_task_self]), (1, 259, [Read_mach_task_self]),
             (0, 259, [Read_mach_task_self]), (2, 259, [Read_mach_task_self])]"
  using get_current_task_port_concurrent
    [of "[0, 1, 0, 2]" "\<lparr>mach_task_self = (259 :: 32 word), memory = ()\<rparr>" 0]
  by (auto simp: get_current_task_port_eq)

end
